theory Spec2Isabelle
  imports Complex_Main "HOL-Library.Word"
begin

section \<open>The Whisper STT server (python-services/whisper-stt/app.py)\<close>

text \<open>
  The service is one Python module: a configuration class, one global model slot, an
  audio normalisation function and seven FastAPI handlers. The speech model, the audio
  decoder and the web framework are libraries; they are parameters of the embedding
  (record \<open>externals\<close> and record \<open>whisper\<close>). Python floats and float32 samples are
  modelled by the real numbers they denote. Every \<open>raise\<close> is the \<open>Inl\<close> branch of a
  sum, and every call made on the loaded model is recorded in a call log that the
  handler returns beside its result.
\<close>

subsection \<open>Data\<close>

type_synonym bytes = "8 word list"
type_synonym audio = "real list"
type_synonym mel = "real list list"

text \<open>
  Exceptions that can travel through the handlers. \<open>HTTPException\<close> carries
  \<open>status_code\<close> and \<open>detail\<close>; \<open>KeyError\<close> carries the missing key;
  \<open>AttributeError\<close> is the call of a method on \<open>None\<close>; \<open>ValueError\<close> is
  \<open>max\<close> of an empty iterable; \<open>LibraryError\<close> is anything raised inside a library.
\<close>

datatype exn =
    HTTPException nat string
  | KeyError string
  | AttributeError string
  | ValueError
  | LibraryError string

text \<open>\<open>class Config\<close>, lines 30-36.\<close>

record Config =
  MODEL_NAME :: string
  DEVICE :: string
  LANGUAGE :: string
  TEMPERATURE :: real
  MAX_FILE_SIZE :: nat
  SAMPLE_RATE :: nat

text \<open>
  The keyword arguments of \<open>whisper_model.transcribe\<close>; \<open>None\<close> in the last three
  fields is a keyword that is not passed. \<open>opt_language\<close> is always passed and may be
  Python's \<open>None\<close>.
\<close>

record options =
  opt_language :: "string option"
  opt_temperature :: "real option"
  opt_word_timestamps :: "bool option"
  opt_condition_on_previous_text :: "bool option"

text \<open>
  The dictionaries returned by the model. A field is \<open>None\<close> when the key is absent;
  a key that is present holds a value of the type Whisper gives it.
\<close>

record segment =
  seg_text :: "string option"
  seg_start :: "real option"
  seg_end :: "real option"
  seg_avg_logprob :: "real option"

record transcribe_result =
  res_text :: "string option"
  res_language :: "string option"
  res_duration :: "real option"
  res_segments :: "segment list option"
  res_avg_logprob :: "real option"

text \<open>The loaded model object: \<open>dims.n_mels\<close> and the two methods the handlers call.\<close>

record whisper =
  n_mels :: nat
  transcribe :: "audio \<Rightarrow> options \<Rightarrow> exn + transcribe_result"
  model_detect_language :: "mel \<Rightarrow> exn + (string \<times> real) list"

text \<open>
  What the module takes from its libraries and its environment:
  \<open>os.getenv\<close>, \<open>torch.cuda.is_available()\<close>, \<open>whisper.load_model(name, device)\<close>,
  \<open>librosa.load(io.BytesIO(b), sr)\<close> (mono, float32 by default),
  \<open>whisper.log_mel_spectrogram(tensor, n_mels)\<close>, \<open>str(e)\<close> on an exception and
  \<open>datetime.now().isoformat()\<close>.
\<close>

record externals =
  getenv :: "string \<Rightarrow> string option"
  cuda_is_available :: bool
  load_model :: "string \<Rightarrow> string \<Rightarrow> exn + whisper"
  librosa_load :: "bytes \<Rightarrow> nat \<Rightarrow> exn + audio"
  log_mel_spectrogram :: "audio \<Rightarrow> nat \<Rightarrow> exn + mel"
  py_str :: "exn \<Rightarrow> string"
  now_isoformat :: string

text \<open>The module's globals: \<open>whisper_model\<close> (line 81) and \<open>config\<close> (line 38).\<close>

record globals =
  whisper_model :: "whisper option"
  config :: Config

text \<open>Calls made on the model library, in the order they are made.\<close>

datatype call =
    LoadModel string string
  | Transcribe audio options
  | DetectLanguage mel

text \<open>The Pydantic response models, lines 41-56, and the plain dictionaries returned.\<close>

record TranscriptionResponse =
  "text" :: string
  language :: "string option"
  duration :: "real option"
  segments :: "segment list option"
  confidence :: "real option"

record LanguageDetectionResponse =
  detected_language :: string
  lang_confidence :: real

record HealthResponse =
  status :: string
  model :: string
  device :: string
  timestamp :: string

record stream_segment =
  st_text :: string
  st_start :: real
  st_end :: real
  st_confidence :: real

record stream_response =
  sr_text :: string
  sr_segments :: "stream_segment list"
  sr_language :: "string option"

record info_response =
  service :: string
  version :: string
  info_model :: string
  info_device :: string
  supported_languages :: "string list"
  features :: "string list"

datatype response =
    Health HealthResponse
  | Models "(string \<times> string \<times> string) list"
  | Transcription TranscriptionResponse
  | LanguageDetection LanguageDetectionResponse
  | Quick string
  | Stream stream_response
  | Info info_response

text \<open>What a handler leaves behind: the globals, the model calls, and its result.\<close>

type_synonym outcome = "globals \<times> call list \<times> (exn + response)"

subsection \<open>Module initialisation and model loading\<close>

text \<open>The class body of \<open>Config\<close> is evaluated once, when the module is imported.\<close>

definition Config_init :: "externals \<Rightarrow> Config" where
  "Config_init ext =
     \<lparr> MODEL_NAME = (case getenv ext ''WHISPER_MODEL'' of None \<Rightarrow> ''base'' | Some v \<Rightarrow> v),
       DEVICE = (if cuda_is_available ext then ''cuda'' else ''cpu''),
       LANGUAGE = ''ko'',
       TEMPERATURE = 0,
       MAX_FILE_SIZE = 25 * 1024 * 1024,
       SAMPLE_RATE = 16000 \<rparr>"

definition module_init :: "externals \<Rightarrow> globals" where
  "module_init ext = \<lparr> whisper_model = None, config = Config_init ext \<rparr>"

text \<open>\<open>load_whisper_model\<close>, lines 83-92: the exception is logged and raised again.\<close>

definition load_whisper_model :: "externals \<Rightarrow> globals \<Rightarrow> call list \<times> (exn + globals)" where
  "load_whisper_model ext g =
     ([LoadModel (MODEL_NAME (config g)) (DEVICE (config g))],
      (case load_model ext (MODEL_NAME (config g)) (DEVICE (config g)) of
         Inl e \<Rightarrow> Inl e
       | Inr m \<Rightarrow> Inr (g\<lparr>whisper_model := Some m\<rparr>)))"

definition startup_event :: "externals \<Rightarrow> globals \<Rightarrow> call list \<times> (exn + globals)" where
  "startup_event ext g = load_whisper_model ext g"

subsection \<open>Audio normalisation\<close>

text \<open>
  \<open>preprocess_audio\<close>, lines 94-114. \<open>librosa.load\<close> already returns float32, so
  \<open>astype(np.float32)\<close> keeps every sample; \<open>np.pad(a, (0, k))\<close> appends \<open>k\<close> zeros.
\<close>

definition preprocess_audio :: "externals \<Rightarrow> Config \<Rightarrow> bytes \<Rightarrow> exn + audio" where
  "preprocess_audio ext cfg audio_file =
     (case librosa_load ext audio_file (SAMPLE_RATE cfg) of
        Inl e \<Rightarrow> Inl e
      | Inr audio_data \<Rightarrow>
          (let max_length = SAMPLE_RATE cfg * 30 in
           if length audio_data > max_length
           then Inr (take max_length audio_data)
           else Inr (audio_data @ replicate (max_length - length audio_data) 0)))"

subsection \<open>Python helpers\<close>

text \<open>
  \<open>str.strip()\<close>: whitespace is removed at both ends. A \<open>char\<close> is a code point below
  256; the whitespace code points there are 9-13, 28-32, 133 and 160.
\<close>

definition is_space :: "char \<Rightarrow> bool" where
  "is_space c = ((of_char c :: nat) \<in> {9, 10, 11, 12, 13, 28, 29, 30, 31, 32, 133, 160})"

definition strip :: "string \<Rightarrow> string" where
  "strip s = rev (dropWhile is_space (rev (dropWhile is_space s)))"

text \<open>\<open>d.get(key, default)\<close> on a field that may be absent.\<close>

definition get_default :: "'a option \<Rightarrow> 'a \<Rightarrow> 'a" where
  "get_default v d = (case v of None \<Rightarrow> d | Some x \<Rightarrow> x)"

text \<open>Decimal digits of a natural number, as an f-string prints an \<open>int\<close>.\<close>

fun str_nat :: "nat \<Rightarrow> string" where
  "str_nat n =
     (if n < 10 then [''0123456789'' ! n]
      else str_nat (n div 10) @ [''0123456789'' ! (n mod 10)])"

text \<open>
  \<open>max(probs, key=probs.get)\<close> on a dictionary kept as its items in insertion order:
  iterating yields the keys in that order, \<open>probs.get\<close> of a key is the value stored
  with it, and \<open>max\<close> replaces its candidate only by a strictly greater one, so the
  first key with the greatest value wins. On an empty dictionary \<open>max\<close> raises.
\<close>

fun max_item :: "(string \<times> real) \<Rightarrow> (string \<times> real) list \<Rightarrow> (string \<times> real)" where
  "max_item best [] = best"
| "max_item best (kv # rest) = max_item (if snd kv > snd best then kv else best) rest"

definition max_key :: "(string \<times> real) list \<Rightarrow> exn + string" where
  "max_key probs = (case probs of [] \<Rightarrow> Inl ValueError | kv # rest \<Rightarrow> Inr (fst (max_item kv rest)))"

text \<open>\<open>probs[key]\<close>.\<close>

definition subscript :: "(string \<times> real) list \<Rightarrow> string \<Rightarrow> exn + real" where
  "subscript probs k = (case map_of probs k of None \<Rightarrow> Inl (KeyError k) | Some v \<Rightarrow> Inr v)"

subsection \<open>Handlers\<close>

text \<open>\<open>health_check\<close>, lines 121-129.\<close>

definition health_check :: "externals \<Rightarrow> globals \<Rightarrow> outcome" where
  "health_check ext g =
     (g, [],
      Inr (Health \<lparr> status = (if whisper_model g \<noteq> None then ''healthy'' else ''unhealthy''),
                    model = MODEL_NAME (config g),
                    device = DEVICE (config g),
                    timestamp = now_isoformat ext \<rparr>))"

text \<open>\<open>get_models\<close>, lines 131-141: id, size, description.\<close>

definition get_models :: "externals \<Rightarrow> globals \<Rightarrow> outcome" where
  "get_models ext g =
     (g, [],
      Inr (Models
        [(''tiny'', ''39M'', ''Fastest, lowest accuracy''),
         (''base'', ''74M'', ''Good balance of speed and accuracy''),
         (''small'', ''244M'', ''Better accuracy, slower''),
         (''medium'', ''769M'', ''High accuracy''),
         (''large'', ''1550M'', ''Best accuracy, slowest'')]))"

text \<open>The form fields of \<open>/v1/audio/transcriptions\<close>, lines 144-151.\<close>

record transcription_request =
  "file" :: bytes
  req_model :: string
  req_language :: "string option"
  response_format :: string
  temperature :: real
  timestamp_granularities :: "string option"

text \<open>Line 185.\<close>

definition overall_confidence :: "transcribe_result \<Rightarrow> real option" where
  "overall_confidence result =
     (if res_avg_logprob result \<noteq> None
      then Some (1.0 - (get_default (res_avg_logprob result) (- 1.0) / (- 1.0)))
      else None)"

text \<open>The body of the \<open>try\<close> of \<open>transcribe_audio\<close>, lines 159-196.\<close>

definition transcribe_audio_try ::
  "externals \<Rightarrow> globals \<Rightarrow> whisper \<Rightarrow> transcription_request \<Rightarrow> call list \<times> (exn + response)" where
  "transcribe_audio_try ext g m req =
     (let content = file req in
      if length content > MAX_FILE_SIZE (config g)
      then ([], Inl (HTTPException 413
              (''File too large. Maximum size: '' @ str_nat (MAX_FILE_SIZE (config g)) @ '' bytes'')))
      else
        (case preprocess_audio ext (config g) content of
           Inl e \<Rightarrow> ([], Inl e)
         | Inr audio_data \<Rightarrow>
             (let options0 = \<lparr> opt_language = req_language req,
                                opt_temperature = Some (temperature req),
                                opt_word_timestamps = None,
                                opt_condition_on_previous_text = None \<rparr>;
                  options1 = (if timestamp_granularities req \<noteq> None
                                  \<and> timestamp_granularities req \<noteq> Some []
                              then options0\<lparr>opt_word_timestamps := Some True\<rparr>
                              else options0)
              in
                ([Transcribe audio_data options1],
                 (case transcribe m audio_data options1 of
                    Inl e \<Rightarrow> Inl e
                  | Inr result \<Rightarrow>
                      (let conf = overall_confidence result in
                       case res_text result of
                         None \<Rightarrow> Inl (KeyError ''text'')
                       | Some t \<Rightarrow>
                           Inr (Transcription
                             \<lparr> text = strip t,
                               language = res_language result,
                               duration = res_duration result,
                               segments = res_segments result,
                               confidence = conf \<rparr>)))))))"

text \<open>
  \<open>transcribe_audio\<close>, lines 143-200. The 503 is raised before the \<open>try\<close>; whatever
  the \<open>try\<close> raises, an \<open>HTTPException\<close> included, is caught by \<open>except Exception\<close>
  and becomes a 500.
\<close>

definition transcribe_audio :: "externals \<Rightarrow> globals \<Rightarrow> transcription_request \<Rightarrow> outcome" where
  "transcribe_audio ext g req =
     (case whisper_model g of
        None \<Rightarrow> (g, [], Inl (HTTPException 503 ''Whisper model not loaded''))
      | Some m \<Rightarrow>
          (case transcribe_audio_try ext g m req of
             (calls, Inl e) \<Rightarrow>
               (g, calls, Inl (HTTPException 500 (''Transcription failed: '' @ py_str ext e)))
           | (calls, Inr r) \<Rightarrow> (g, calls, Inr r)))"

text \<open>
  The body of the \<open>try\<close> of \<open>detect_language\<close>, lines 211-234.
  \<open>torch.from_numpy(a).to(device)\<close> keeps the samples.
\<close>

definition detect_language_try ::
  "externals \<Rightarrow> globals \<Rightarrow> whisper \<Rightarrow> bytes \<Rightarrow> call list \<times> (exn + response)" where
  "detect_language_try ext g m content =
     (if length content > MAX_FILE_SIZE (config g)
      then ([], Inl (HTTPException 413 ''File too large''))
      else
        (case preprocess_audio ext (config g) content of
           Inl e \<Rightarrow> ([], Inl e)
         | Inr audio_data \<Rightarrow>
             (let audio_segment = take (SAMPLE_RATE (config g) * 30) audio_data;
                  audio_tensor = audio_segment
              in
                case log_mel_spectrogram ext audio_tensor (n_mels m) of
                  Inl e \<Rightarrow> ([], Inl e)
                | Inr mel \<Rightarrow>
                    ([DetectLanguage mel],
                     (case model_detect_language m mel of
                        Inl e \<Rightarrow> Inl e
                      | Inr probs \<Rightarrow>
                          (case max_key probs of
                             Inl e \<Rightarrow> Inl e
                           | Inr detected \<Rightarrow>
                               (case subscript probs detected of
                                  Inl e \<Rightarrow> Inl e
                                | Inr conf \<Rightarrow>
                                    Inr (LanguageDetection
                                      \<lparr> detected_language = detected,
                                        lang_confidence = conf \<rparr>))))))))"

text \<open>\<open>detect_language\<close>, lines 202-238.\<close>

definition detect_language :: "externals \<Rightarrow> globals \<Rightarrow> bytes \<Rightarrow> outcome" where
  "detect_language ext g content =
     (case whisper_model g of
        None \<Rightarrow> (g, [], Inl (HTTPException 503 ''Whisper model not loaded''))
      | Some m \<Rightarrow>
          (case detect_language_try ext g m content of
             (calls, Inl e) \<Rightarrow>
               (g, calls, Inl (HTTPException 500 (''Language detection failed: '' @ py_str ext e)))
           | (calls, Inr r) \<Rightarrow> (g, calls, Inr r)))"

text \<open>
  \<open>transcribe_quick\<close>, lines 240-261. There is no check of the model or of the size:
  on \<open>None\<close> the method call raises, inside the \<open>try\<close>.
\<close>

definition transcribe_quick_try ::
  "externals \<Rightarrow> globals \<Rightarrow> bytes \<Rightarrow> call list \<times> (exn + response)" where
  "transcribe_quick_try ext g content =
     (case preprocess_audio ext (config g) content of
        Inl e \<Rightarrow> ([], Inl e)
      | Inr audio_data \<Rightarrow>
          (case whisper_model g of
             None \<Rightarrow> ([], Inl (AttributeError ''transcribe''))
           | Some m \<Rightarrow>
               (let opts = \<lparr> opt_language = Some (LANGUAGE (config g)),
                              opt_temperature = Some 0.0,
                              opt_word_timestamps = Some False,
                              opt_condition_on_previous_text = None \<rparr>
                in
                  ([Transcribe audio_data opts],
                   (case transcribe m audio_data opts of
                      Inl e \<Rightarrow> Inl e
                    | Inr result \<Rightarrow>
                        (case res_text result of
                           None \<Rightarrow> Inl (KeyError ''text'')
                         | Some t \<Rightarrow> Inr (Quick (strip t))))))))"

definition transcribe_quick :: "externals \<Rightarrow> globals \<Rightarrow> bytes \<Rightarrow> outcome" where
  "transcribe_quick ext g content =
     (case transcribe_quick_try ext g content of
        (calls, Inl e) \<Rightarrow> (g, calls, Inl (HTTPException 500 (py_str ext e)))
      | (calls, Inr r) \<Rightarrow> (g, calls, Inr r))"

text \<open>Line 287, and the loop of lines 281-288: a missing key raises at its segment.\<close>

definition segment_confidence :: "segment \<Rightarrow> real" where
  "segment_confidence seg = 1.0 - \<bar>get_default (seg_avg_logprob seg) (- 1.0)\<bar>"

fun stream_segments :: "segment list \<Rightarrow> exn + stream_segment list" where
  "stream_segments [] = Inr []"
| "stream_segments (seg # rest) =
     (case seg_text seg of
        None \<Rightarrow> Inl (KeyError ''text'')
      | Some t \<Rightarrow>
          (case seg_start seg of
             None \<Rightarrow> Inl (KeyError ''start'')
           | Some a \<Rightarrow>
               (case seg_end seg of
                  None \<Rightarrow> Inl (KeyError ''end'')
                | Some b \<Rightarrow>
                    (case stream_segments rest of
                       Inl e \<Rightarrow> Inl e
                     | Inr done_rest \<Rightarrow>
                         Inr (\<lparr> st_text = strip t, st_start = a, st_end = b,
                                st_confidence = segment_confidence seg \<rparr> # done_rest)))))"

text \<open>\<open>transcribe_stream\<close>, lines 263-298.\<close>

definition transcribe_stream_try ::
  "externals \<Rightarrow> globals \<Rightarrow> bytes \<Rightarrow> call list \<times> (exn + response)" where
  "transcribe_stream_try ext g content =
     (case preprocess_audio ext (config g) content of
        Inl e \<Rightarrow> ([], Inl e)
      | Inr audio_data \<Rightarrow>
          (case whisper_model g of
             None \<Rightarrow> ([], Inl (AttributeError ''transcribe''))
           | Some m \<Rightarrow>
               (let opts = \<lparr> opt_language = Some (LANGUAGE (config g)),
                              opt_temperature = None,
                              opt_word_timestamps = Some True,
                              opt_condition_on_previous_text = Some True \<rparr>
                in
                  ([Transcribe audio_data opts],
                   (case transcribe m audio_data opts of
                      Inl e \<Rightarrow> Inl e
                    | Inr result \<Rightarrow>
                        (case stream_segments (get_default (res_segments result) []) of
                           Inl e \<Rightarrow> Inl e
                         | Inr segs \<Rightarrow>
                             (case res_text result of
                                None \<Rightarrow> Inl (KeyError ''text'')
                              | Some t \<Rightarrow>
                                  Inr (Stream \<lparr> sr_text = strip t,
                                                sr_segments = segs,
                                                sr_language = res_language result \<rparr>))))))))"

definition transcribe_stream :: "externals \<Rightarrow> globals \<Rightarrow> bytes \<Rightarrow> outcome" where
  "transcribe_stream ext g content =
     (case transcribe_stream_try ext g content of
        (calls, Inl e) \<Rightarrow> (g, calls, Inl (HTTPException 500 (py_str ext e)))
      | (calls, Inr r) \<Rightarrow> (g, calls, Inr r))"

text \<open>\<open>get_info\<close>, lines 300-319.\<close>

definition get_info :: "externals \<Rightarrow> globals \<Rightarrow> outcome" where
  "get_info ext g =
     (g, [],
      Inr (Info
        \<lparr> service = ''Whisper STT Server'',
          version = ''1.0.0'',
          info_model = MODEL_NAME (config g),
          info_device = DEVICE (config g),
          supported_languages =
            [''ko'', ''en'', ''ja'', ''zh'', ''es'', ''fr'', ''de'', ''ru'', ''it'', ''pt'',
             ''pl'', ''tr'', ''nl'', ''ar'', ''sv'', ''he'', ''hu'', ''uk'', ''vi'', ''th''],
          features =
            [''Real-time transcription'', ''Language detection'',
             ''Korean language optimized'', ''Streaming support'',
             ''Multiple model sizes''] \<rparr>))"

text \<open>The routes of \<open>app\<close>: one request is handled by the handler of its path.\<close>

datatype request =
    GetHealth
  | GetModels
  | PostTranscriptions transcription_request
  | PostDetectLanguage bytes
  | PostTranscribeQuick bytes
  | PostTranscribeStream bytes
  | GetInfo

fun app :: "externals \<Rightarrow> globals \<Rightarrow> request \<Rightarrow> outcome" where
  "app ext g GetHealth = health_check ext g"
| "app ext g GetModels = get_models ext g"
| "app ext g (PostTranscriptions req) = transcribe_audio ext g req"
| "app ext g (PostDetectLanguage content) = detect_language ext g content"
| "app ext g (PostTranscribeQuick content) = transcribe_quick ext g content"
| "app ext g (PostTranscribeStream content) = transcribe_stream ext g content"
| "app ext g GetInfo = get_info ext g"

subsection \<open>A sample environment\<close>

text \<open>
  One concrete environment, model and request each, on which the theorems below are
  instantiated. \<open>example_str\<close> prints an \<open>HTTPException\<close> as Starlette does
  (\<open>status_code: detail\<close>) and a \<open>KeyError\<close> as Python does (the key in quotes).
\<close>

fun example_str :: "exn \<Rightarrow> string" where
  "example_str (HTTPException c d) = str_nat c @ '': '' @ d"
| "example_str (KeyError k) = [CHR 0x27] @ k @ [CHR 0x27]"
| "example_str (AttributeError a) = a"
| "example_str ValueError = ''max() arg is an empty sequence''"
| "example_str (LibraryError s) = s"

definition example_result :: transcribe_result where
  "example_result =
     \<lparr> res_text = Some '' annyeong '', res_language = Some ''ko'', res_duration = None,
       res_segments = None, res_avg_logprob = Some (- 1 / 4) \<rparr>"


definition example_model :: whisper where
  "example_model =
     \<lparr> n_mels = 80,
       transcribe = (\<lambda>a opts. Inr example_result),
       model_detect_language = (\<lambda>mel. Inr [(''en'', 1 / 4), (''ko'', 1 / 2), (''ja'', 1 / 4)]) \<rparr>"

definition example_externals :: externals where
  "example_externals =
     \<lparr> getenv = (\<lambda>name. None),
       cuda_is_available = False,
       load_model = (\<lambda>name dev. Inr example_model),
       librosa_load = (\<lambda>b sr. Inr [1 / 2, - 1 / 4]),
       log_mel_spectrogram = (\<lambda>a n. Inr [ [0] ]),
       py_str = example_str,
       now_isoformat = ''2024-01-01T00:00:00'' \<rparr>"

text \<open>The same environment with a decoder that yields 500000 samples, more than 30 s.\<close>

definition long_externals :: externals where
  "long_externals = example_externals\<lparr>librosa_load := (\<lambda>b sr. Inr (replicate 500000 (1 / 2)))\<rparr>"

definition example_globals :: globals where
  "example_globals =
     \<lparr> whisper_model = Some example_model, config = Config_init example_externals \<rparr>"

definition example_request :: transcription_request where
  "example_request =
     \<lparr> file = [1, 2, 3], req_model = ''base'', req_language = Some ''ko'',
       response_format = ''json'', temperature = 0, timestamp_granularities = None \<rparr>"

text \<open>An upload of one byte more than 25 MB.\<close>

definition oversized_request :: transcription_request where
  "oversized_request =
     \<lparr> file = replicate 26214401 0, req_model = ''base'', req_language = Some ''ko'',
       response_format = ''json'', temperature = 0, timestamp_granularities = None \<rparr>"

section \<open>Properties\<close>

subsection \<open>Helper lemmas\<close>


lemma max_item_mem: "max_item best xs \<in> set (best # xs)"
  by (induction xs arbitrary: best) (auto split: if_splits)

lemma max_item_ge_best: "snd best \<le> snd (max_item best xs)"
proof (induction xs arbitrary: best)
  case Nil
  show ?case by simp
next
  case (Cons kv rest)
  show ?case
  proof (cases "snd kv > snd best")
    case True
    with Cons [of kv] show ?thesis by simp
  next
    case False
    with Cons [of best] show ?thesis by simp
  qed
qed

lemma max_item_ge: "kv \<in> set xs \<Longrightarrow> snd kv \<le> snd (max_item best xs)"
proof (induction xs arbitrary: best)
  case Nil
  then show ?case by simp
next
  case (Cons x rest)
  show ?case
  proof (cases "kv = x")
    case True
    have "snd x \<le> snd (if snd x > snd best then x else best)" by simp
    also have "\<dots> \<le> snd (max_item (if snd x > snd best then x else best) rest)"
      by (rule max_item_ge_best)
    finally show ?thesis using True by simp
  next
    case False
    with Cons.prems have "kv \<in> set rest" by simp
    then show ?thesis using Cons.IH by simp
  qed
qed

text \<open>
  On a non-empty dictionary \<open>max(probs, key=probs.get)\<close> returns a key, the
  subscript finds its value, and no value of the dictionary is greater.
\<close>

lemma max_key_subscript:
  assumes "probs \<noteq> []" and "distinct (map fst probs)"
  shows "\<exists>k c. max_key probs = Inr k \<and> subscript probs k = Inr c \<and> (k, c) \<in> set probs
           \<and> (\<forall>kv \<in> set probs. snd kv \<le> c)"
proof -
  from assms(1) obtain kv rest where probs: "probs = kv # rest" by (cases probs) auto
  define best where "best = max_item kv rest"
  have mem: "best \<in> set probs" unfolding best_def probs by (rule max_item_mem)
  then have "(fst best, snd best) \<in> set probs" by simp
  with assms(2) have look: "map_of probs (fst best) = Some (snd best)"
    by (rule_tac map_of_is_SomeI)
  have ge: "\<forall>x \<in> set probs. snd x \<le> snd best"
    unfolding best_def probs using max_item_ge [of _ rest kv] max_item_ge_best [of kv rest]
    by auto
  have "max_key probs = Inr (fst best)" by (simp add: max_key_def probs best_def)
  moreover have "subscript probs (fst best) = Inr (snd best)" by (simp add: subscript_def look)
  ultimately show ?thesis using mem ge by (intro exI [of _ "fst best"] exI [of _ "snd best"]) simp
qed

text \<open>After a successful startup the model slot is filled and \<open>config\<close> is untouched.\<close>

lemma startup_event_loaded:
  "startup_event ext g = (cs, Inr g') \<Longrightarrow> whisper_model g' \<noteq> None \<and> config g' = config g"
  by (auto simp: startup_event_def load_whisper_model_def split: sum.splits)

subsection \<open>Audio normalisation\<close>

text \<open>
  Claim C1. Whenever decoding the upload at 16000 Hz yields the samples \<open>xs\<close>,
  \<open>preprocess_audio\<close> returns exactly 480000 samples: the first 480000 of \<open>xs\<close> when
  there are more, and otherwise \<open>xs\<close> followed by \<open>480000 - length xs\<close> zeros.
\<close>

theorem preprocess_audio_pads_or_truncates:
  assumes "librosa_load ext audio_file 16000 = Inr xs"
  shows "\<exists>ys. preprocess_audio ext (Config_init ext) audio_file = Inr ys
           \<and> length ys = 480000
           \<and> ys = (if length xs > 480000 then take 480000 xs
                   else xs @ replicate (480000 - length xs) 0)"
  using assms by (simp add: preprocess_audio_def Config_init_def Let_def)

theorem preprocess_audio_pads_or_truncates_witness:
  "librosa_load example_externals [1, 2, 3] 16000 = Inr [1 / 2, - 1 / 4]
   \<and> preprocess_audio example_externals (Config_init example_externals) [1, 2, 3] =
       Inr ([1 / 2, - 1 / 4] @ replicate 479998 0)
   \<and> librosa_load long_externals [1, 2, 3] 16000 = Inr (replicate 500000 (1 / 2))
   \<and> preprocess_audio long_externals (Config_init long_externals) [1, 2, 3] =
       Inr (replicate 480000 (1 / 2))"
proof -
  have short: "librosa_load example_externals [1, 2, 3] 16000 = Inr [1 / 2, - 1 / 4]"
    by (simp add: example_externals_def)
  have long: "librosa_load long_externals [1, 2, 3] 16000 = Inr (replicate 500000 (1 / 2))"
    by (simp add: long_externals_def)
  from preprocess_audio_pads_or_truncates [OF short]
  have "preprocess_audio example_externals (Config_init example_externals) [1, 2, 3] =
      Inr ([1 / 2, - 1 / 4] @ replicate 479998 0)"
    by simp
  moreover from preprocess_audio_pads_or_truncates [OF long]
  have "preprocess_audio long_externals (Config_init long_externals) [1, 2, 3] =
      Inr (replicate 480000 (1 / 2))"
    by simp
  ultimately show ?thesis using short long by simp
qed



subsection \<open>Confidence\<close>

text \<open>
  Claim C2. When \<open>transcribe_audio\<close> answers with a response, and \<open>result\<close> is what the
  model returned to the call it made: if \<open>result\<close> has the key \<open>avg_logprob\<close> with value
  \<open>p\<close>, the confidence of the response is \<open>1.0 - (p / -1.0)\<close>, which is \<open>1 + p\<close>; if the
  key is absent, the confidence is \<open>None\<close>.
\<close>

theorem transcribe_audio_confidence:
  assumes loaded: "whisper_model g = Some m"
    and out: "transcribe_audio ext g req = (g', [Transcribe a opts], Inr (Transcription resp))"
    and res: "transcribe m a opts = Inr result"
  shows "(\<forall>p. res_avg_logprob result = Some p \<longrightarrow>
            confidence resp = Some (1.0 - (p / (- 1.0))) \<and> confidence resp = Some (1 + p))
       \<and> (res_avg_logprob result = None \<longrightarrow> confidence resp = None)"
  using assms
  by (auto simp: transcribe_audio_def transcribe_audio_try_def overall_confidence_def
      get_default_def Let_def split: if_splits sum.splits prod.splits option.splits)

theorem transcribe_audio_confidence_witness:
  "whisper_model example_globals = Some example_model
   \<and> transcribe_audio example_externals example_globals example_request =
       (example_globals,
        [Transcribe ([1 / 2, - 1 / 4] @ replicate 479998 0)
           \<lparr> opt_language = Some ''ko'', opt_temperature = Some 0,
             opt_word_timestamps = None, opt_condition_on_previous_text = None \<rparr>],
        Inr (Transcription
          \<lparr> text = ''annyeong'', language = Some ''ko'', duration = None, segments = None,
            confidence = Some (3 / 4) \<rparr>))
   \<and> transcribe example_model ([1 / 2, - 1 / 4] @ replicate 479998 0)
         \<lparr> opt_language = Some ''ko'', opt_temperature = Some 0,
           opt_word_timestamps = None, opt_condition_on_previous_text = None \<rparr> =
       Inr example_result
   \<and> res_avg_logprob example_result = Some (- 1 / 4)
   \<and> confidence \<lparr> text = ''annyeong'', language = Some ''ko'', duration = None, segments = None,
            confidence = Some (3 / 4) \<rparr> = Some (1 + (- 1 / 4))"
proof -
  have loaded: "whisper_model example_globals = Some example_model"
    by (simp add: example_globals_def)
  have out: "transcribe_audio example_externals example_globals example_request =
       (example_globals,
        [Transcribe ([1 / 2, - 1 / 4] @ replicate 479998 0)
           \<lparr> opt_language = Some ''ko'', opt_temperature = Some 0,
             opt_word_timestamps = None, opt_condition_on_previous_text = None \<rparr>],
        Inr (Transcription
          \<lparr> text = ''annyeong'', language = Some ''ko'', duration = None, segments = None,
            confidence = Some (3 / 4) \<rparr>))"
    by (simp add: transcribe_audio_def transcribe_audio_try_def preprocess_audio_def
        example_globals_def example_externals_def example_model_def example_result_def
        example_request_def Config_init_def overall_confidence_def get_default_def
        strip_def is_space_def Let_def)
  have res: "transcribe example_model ([1 / 2, - 1 / 4] @ replicate 479998 0)
         \<lparr> opt_language = Some ''ko'', opt_temperature = Some 0,
           opt_word_timestamps = None, opt_condition_on_previous_text = None \<rparr> =
       Inr example_result"
    by (simp add: example_model_def)
  have p: "res_avg_logprob example_result = Some (- 1 / 4)"
    by (simp add: example_result_def)
  from transcribe_audio_confidence [OF loaded out res] p
  have "confidence \<lparr> text = ''annyeong'', language = Some ''ko'', duration = None,
            segments = None, confidence = Some (3 / 4) \<rparr> = Some (1 + (- 1 / 4))"
    by blast
  with loaded out res p show ?thesis by (intro conjI)
qed



text \<open>
  The restriction to \<open>p \<le> 0\<close> is needed: above zero the first transform gives
  \<open>1 + p\<close> and the second \<open>1 - p\<close>.
\<close>

lemma confidence_transforms_above_zero:
  assumes "0 < p" and "res_avg_logprob result = Some p" and "seg_avg_logprob seg = Some p"
  shows "overall_confidence result = Some (1 + p)" and "segment_confidence seg = 1 - p"
  using assms by (simp_all add: overall_confidence_def segment_confidence_def get_default_def)

subsection \<open>Language detection\<close>

text \<open>
  Claim C4. When the model's \<open>detect_language\<close> call returns a non-empty probability
  dictionary \<open>probs\<close>, the handler answers with a key of \<open>probs\<close> whose probability is
  maximal, and with \<open>probs\<close> at that key as confidence; the confidence is the maximum
  value of the dictionary.
\<close>

theorem detect_language_returns_argmax:
  assumes loaded: "whisper_model g = Some m"
    and called: "fst (snd (detect_language ext g content)) = [DetectLanguage mel]"
    and probs: "model_detect_language m mel = Inr probs"
    and nonempty: "probs \<noteq> []"
    and keys: "distinct (map fst probs)"
  shows "\<exists>k c. snd (snd (detect_language ext g content)) =
             Inr (LanguageDetection \<lparr> detected_language = k, lang_confidence = c \<rparr>)
           \<and> (k, c) \<in> set probs
           \<and> map_of probs k = Some c
           \<and> (\<forall>kv \<in> set probs. snd kv \<le> c)
           \<and> c = Max (snd ` set probs)"
proof -
  from max_key_subscript [OF nonempty keys] obtain k c where
    k: "max_key probs = Inr k" and c: "subscript probs k = Inr c"
    and mem: "(k, c) \<in> set probs" and ge: "\<forall>kv \<in> set probs. snd kv \<le> c"
    by blast
  from called loaded have path:
    "\<exists>a. preprocess_audio ext (config g) content = Inr a
       \<and> \<not> length content > MAX_FILE_SIZE (config g)
       \<and> log_mel_spectrogram ext (take (SAMPLE_RATE (config g) * 30) a) (n_mels m) = Inr mel"
    by (auto simp: detect_language_def detect_language_try_def Let_def
        split: if_splits sum.splits prod.splits)
  then have res: "snd (snd (detect_language ext g content)) =
      Inr (LanguageDetection \<lparr> detected_language = k, lang_confidence = c \<rparr>)"
    using loaded probs k c
    by (auto simp: detect_language_def detect_language_try_def Let_def)
  have look: "map_of probs k = Some c" using mem keys by (rule_tac map_of_is_SomeI)
  have "c \<in> snd ` set probs" using mem by force
  moreover have "\<forall>y \<in> snd ` set probs. y \<le> c" using ge by auto
  ultimately have "Max (snd ` set probs) = c" by (intro Max_eqI) auto
  with res mem look ge show ?thesis by auto
qed

theorem detect_language_returns_argmax_witness:
  "whisper_model example_globals = Some example_model
   \<and> fst (snd (detect_language example_externals example_globals [1, 2, 3])) =
       [DetectLanguage [ [0] ]]
   \<and> model_detect_language example_model [ [0] ] =
       Inr [(''en'', 1 / 4), (''ko'', 1 / 2), (''ja'', 1 / 4)]
   \<and> distinct (map fst [(''en'', 1 / 4 :: real), (''ko'', 1 / 2), (''ja'', 1 / 4)])
   \<and> snd (snd (detect_language example_externals example_globals [1, 2, 3])) =
       Inr (LanguageDetection \<lparr> detected_language = ''ko'', lang_confidence = 1 / 2 \<rparr>)"
proof -
  have loaded: "whisper_model example_globals = Some example_model"
    by (simp add: example_globals_def)
  have called: "fst (snd (detect_language example_externals example_globals [1, 2, 3])) =
      [DetectLanguage [ [0] ]]"
    by (simp add: detect_language_def detect_language_try_def preprocess_audio_def
        example_globals_def example_externals_def example_model_def Config_init_def
        max_key_def subscript_def Let_def)
  have probs: "model_detect_language example_model [ [0] ] =
      Inr [(''en'', 1 / 4), (''ko'', 1 / 2), (''ja'', 1 / 4)]"
    by (simp add: example_model_def)
  have nonempty: "[(''en'', 1 / 4 :: real), (''ko'', 1 / 2), (''ja'', 1 / 4)] \<noteq> []" by simp
  have keys: "distinct (map fst [(''en'', 1 / 4 :: real), (''ko'', 1 / 2), (''ja'', 1 / 4)])"
    by simp
  from detect_language_returns_argmax [OF loaded called probs nonempty keys]
  obtain k c where
    res: "snd (snd (detect_language example_externals example_globals [1, 2, 3])) =
            Inr (LanguageDetection \<lparr> detected_language = k, lang_confidence = c \<rparr>)"
    and mem: "(k, c) \<in> set [(''en'', 1 / 4 :: real), (''ko'', 1 / 2), (''ja'', 1 / 4)]"
    and ge: "\<forall>kv \<in> set [(''en'', 1 / 4 :: real), (''ko'', 1 / 2), (''ja'', 1 / 4)]. snd kv \<le> c"
    by blast
  from ge have "1 / 2 \<le> c" by simp
  with mem have "k = ''ko'' \<and> c = 1 / 2" by auto
  with res loaded called probs keys show ?thesis by simp
qed

subsection \<open>The transcription handler\<close>

text \<open>
  Claim C5. For an upload within the size limit, the only call \<open>transcribe_audio\<close>
  makes on the model is one \<open>transcribe\<close> call whose array is exactly
  \<open>preprocess_audio(content)\<close>, and the answer is the formatting of what that call
  returned. No call is made when the model is not loaded or the decoding fails.
\<close>

theorem transcribe_audio_passes_preprocessed:
  assumes within: "length (file req) \<le> MAX_FILE_SIZE (config g)"
  shows "(whisper_model g = None \<or> (\<exists>e. preprocess_audio ext (config g) (file req) = Inl e)
            \<longrightarrow> fst (snd (transcribe_audio ext g req)) = [])
       \<and> (\<forall>m a. whisper_model g = Some m \<and> preprocess_audio ext (config g) (file req) = Inr a \<longrightarrow>
            (\<exists>opts. fst (snd (transcribe_audio ext g req)) = [Transcribe a opts]
               \<and> opt_language opts = req_language req
               \<and> opt_temperature opts = Some (temperature req)
               \<and> snd (snd (transcribe_audio ext g req)) =
                   (case transcribe m a opts of
                      Inl e \<Rightarrow> Inl (HTTPException 500 (''Transcription failed: '' @ py_str ext e))
                    | Inr result \<Rightarrow>
                        (case res_text result of
                           None \<Rightarrow> Inl (HTTPException 500
                                     (''Transcription failed: '' @ py_str ext (KeyError ''text'')))
                         | Some t \<Rightarrow>
                             Inr (Transcription
                               \<lparr> text = strip t,
                                 language = res_language result,
                                 duration = res_duration result,
                                 segments = res_segments result,
                                 confidence = overall_confidence result \<rparr>)))))"
  using within
  by (auto simp: transcribe_audio_def transcribe_audio_try_def Let_def
      split: option.splits sum.splits)

theorem transcribe_audio_passes_preprocessed_witness:
  "length (file example_request) \<le> MAX_FILE_SIZE (config example_globals)
   \<and> whisper_model example_globals = Some example_model
   \<and> preprocess_audio example_externals (config example_globals) (file example_request) =
       Inr ([1 / 2, - 1 / 4] @ replicate 479998 0)
   \<and> (\<exists>opts. fst (snd (transcribe_audio example_externals example_globals example_request)) =
          [Transcribe ([1 / 2, - 1 / 4] @ replicate 479998 0) opts])"
proof -
  have within: "length (file example_request) \<le> MAX_FILE_SIZE (config example_globals)"
    by (simp add: example_request_def example_globals_def Config_init_def)
  have loaded: "whisper_model example_globals = Some example_model"
    by (simp add: example_globals_def)
  have pre: "preprocess_audio example_externals (config example_globals) (file example_request) =
      Inr ([1 / 2, - 1 / 4] @ replicate 479998 0)"
    by (simp add: preprocess_audio_def example_externals_def example_globals_def
        Config_init_def Let_def)
  from transcribe_audio_passes_preprocessed [OF within, of example_externals] loaded pre
  have "\<exists>opts. fst (snd (transcribe_audio example_externals example_globals example_request)) =
          [Transcribe ([1 / 2, - 1 / 4] @ replicate 479998 0) opts]"
    by blast
  with within loaded pre show ?thesis by (intro conjI)
qed

subsection \<open>Oversized uploads\<close>

text \<open>
  Claim C6, as the code has it. For an upload of more than \<open>25 * 1024 * 1024\<close> bytes both
  handlers answer with an error and make no call on the model. When the model is
  loaded, the 413 raised inside the \<open>try\<close> is caught by \<open>except Exception\<close> and the
  client sees status 500, whose detail is the handler's prefix followed by \<open>str\<close> of the
  413 exception. When the model is not loaded, the guard before the \<open>try\<close> raises 503
  and the size is never looked at.
\<close>

theorem oversized_upload_rejected:
  assumes cfg: "config g = Config_init ext"
    and big: "length content > 25 * 1024 * 1024"
    and upload: "file req = content"
  shows "(\<exists>e. transcribe_audio ext g req = (g, [], Inl e))
       \<and> (\<exists>e. detect_language ext g content = (g, [], Inl e))
       \<and> (whisper_model g \<noteq> None \<longrightarrow>
            transcribe_audio ext g req =
              (g, [], Inl (HTTPException 500 (''Transcription failed: '' @
                 py_str ext (HTTPException 413 ''File too large. Maximum size: 26214400 bytes''))))
          \<and> detect_language ext g content =
              (g, [], Inl (HTTPException 500 (''Language detection failed: '' @
                 py_str ext (HTTPException 413 ''File too large'')))))
       \<and> (whisper_model g = None \<longrightarrow>
            transcribe_audio ext g req = (g, [], Inl (HTTPException 503 ''Whisper model not loaded''))
          \<and> detect_language ext g content =
              (g, [], Inl (HTTPException 503 ''Whisper model not loaded'')))"
proof -
  have max: "MAX_FILE_SIZE (config g) = 26214400" by (simp add: cfg Config_init_def)
  have digits: "str_nat 26214400 = ''26214400''" by simp
  show ?thesis
    using big upload
    by (cases "whisper_model g")
       (simp_all add: transcribe_audio_def transcribe_audio_try_def detect_language_def
          detect_language_try_def Let_def max digits del: str_nat.simps)
qed

theorem oversized_upload_rejected_witness:
  "config example_globals = Config_init example_externals
   \<and> length (file oversized_request) > 25 * 1024 * 1024
   \<and> whisper_model example_globals \<noteq> None
   \<and> transcribe_audio example_externals example_globals oversized_request =
       (example_globals, [],
        Inl (HTTPException 500
          ''Transcription failed: 413: File too large. Maximum size: 26214400 bytes''))
   \<and> detect_language example_externals example_globals (file oversized_request) =
       (example_globals, [],
        Inl (HTTPException 500 ''Language detection failed: 413: File too large''))"
proof -
  have cfg: "config example_globals = Config_init example_externals"
    by (simp add: example_globals_def)
  have big: "length (file oversized_request) > 25 * 1024 * 1024"
    by (simp add: oversized_request_def)
  have loaded: "whisper_model example_globals \<noteq> None"
    by (simp add: example_globals_def)
  have str: "py_str example_externals = example_str"
    by (simp add: example_externals_def)
  from oversized_upload_rejected [OF cfg big refl] loaded
  have "transcribe_audio example_externals example_globals oversized_request =
       (example_globals, [],
        Inl (HTTPException 500
          ''Transcription failed: 413: File too large. Maximum size: 26214400 bytes''))
     \<and> detect_language example_externals example_globals (file oversized_request) =
       (example_globals, [],
        Inl (HTTPException 500 ''Language detection failed: 413: File too large''))"
    by (simp add: str)
  with cfg big loaded show ?thesis by (intro conjI) simp_all
qed

text \<open>
  The claim as first stated gives status 500 for every oversized upload. Before the
  model is loaded the same upload is answered with 503.
\<close>

theorem oversized_upload_unloaded_is_503:
  "length (file oversized_request) > MAX_FILE_SIZE (config (module_init example_externals))
   \<and> transcribe_audio example_externals (module_init example_externals) oversized_request =
       (module_init example_externals, [], Inl (HTTPException 503 ''Whisper model not loaded''))
   \<and> detect_language example_externals (module_init example_externals) (file oversized_request) =
       (module_init example_externals, [], Inl (HTTPException 503 ''Whisper model not loaded''))"
  by (simp add: oversized_request_def module_init_def Config_init_def transcribe_audio_def
      detect_language_def)

subsection \<open>Globals\<close>

text \<open>
  Claim C7. \<open>Config.DEVICE\<close> is \<open>cuda\<close> exactly when \<open>torch.cuda.is_available()\<close> holds
  at module initialisation and \<open>cpu\<close> otherwise, and the startup hook loads the one
  global model with \<open>config.MODEL_NAME\<close> on the device \<open>config.DEVICE\<close>.
\<close>

theorem device_selection_and_startup_load:
  "(DEVICE (Config_init ext) = ''cuda'') = cuda_is_available ext
   \<and> DEVICE (Config_init ext) = (if cuda_is_available ext then ''cuda'' else ''cpu'')
   \<and> module_init ext = \<lparr> whisper_model = None, config = Config_init ext \<rparr>
   \<and> startup_event ext (module_init ext) =
       ([LoadModel (MODEL_NAME (Config_init ext)) (DEVICE (Config_init ext))],
        map_sum id (\<lambda>m. \<lparr> whisper_model = Some m, config = Config_init ext \<rparr>)
          (load_model ext (MODEL_NAME (Config_init ext)) (DEVICE (Config_init ext))))"
  by (simp add: Config_init_def module_init_def startup_event_def load_whisper_model_def
      split: sum.splits)

theorem device_selection_and_startup_load_witness:
  "DEVICE (Config_init example_externals) = ''cpu''
   \<and> startup_event example_externals (module_init example_externals) =
       ([LoadModel ''base'' ''cpu''], Inr example_globals)"
proof -
  have dev: "DEVICE (Config_init example_externals) = ''cpu''"
    by (simp add: Config_init_def example_externals_def)
  have name: "MODEL_NAME (Config_init example_externals) = ''base''"
    by (simp add: Config_init_def example_externals_def)
  have load: "load_model example_externals ''base'' ''cpu'' = Inr example_model"
    by (simp add: example_externals_def)
  from device_selection_and_startup_load [of example_externals]
  have "startup_event example_externals (module_init example_externals) =
       ([LoadModel (MODEL_NAME (Config_init example_externals)) (DEVICE (Config_init example_externals))],
        map_sum id (\<lambda>m. \<lparr> whisper_model = Some m, config = Config_init example_externals \<rparr>)
          (load_model example_externals (MODEL_NAME (Config_init example_externals))
             (DEVICE (Config_init example_externals))))"
    by blast
  then have "startup_event example_externals (module_init example_externals) =
       ([LoadModel ''base'' ''cpu''], Inr example_globals)"
    by (simp add: dev name load example_globals_def)
  with dev show ?thesis by (intro conjI)
qed

text \<open>
  Claim C8. No handler changes the globals: after any request to any of the seven
  routes, \<open>whisper_model\<close> and \<open>config\<close> are what they were before. The slot
  \<open>whisper_model\<close> is assigned by \<open>load_whisper_model\<close>, which the startup hook calls.
\<close>

theorem handlers_preserve_globals:
  "fst (app ext g req) = g
   \<and> whisper_model (fst (app ext g req)) = whisper_model g
   \<and> config (fst (app ext g req)) = config g
   \<and> startup_event ext g = load_whisper_model ext g
   \<and> snd (load_whisper_model ext g) =
       map_sum id (\<lambda>m. g\<lparr>whisper_model := Some m\<rparr>)
         (load_model ext (MODEL_NAME (config g)) (DEVICE (config g)))"
proof -
  have frame: "fst (app ext g req) = g"
    by (cases req)
       (auto simp: health_check_def get_models_def get_info_def transcribe_audio_def
          detect_language_def transcribe_quick_def transcribe_stream_def
          split: option.splits sum.splits prod.splits)
  have load: "snd (load_whisper_model ext g) =
       map_sum id (\<lambda>m. g\<lparr>whisper_model := Some m\<rparr>)
         (load_model ext (MODEL_NAME (config g)) (DEVICE (config g)))"
    by (simp add: load_whisper_model_def split: sum.splits)
  show ?thesis by (simp add: frame load startup_event_def)
qed

theorem handlers_preserve_globals_witness:
  "fst (app example_externals example_globals (PostTranscriptions example_request)) = example_globals
   \<and> fst (app example_externals example_globals (PostTranscribeStream [1, 2, 3])) = example_globals
   \<and> fst (app example_externals (module_init example_externals) (PostTranscribeQuick [1, 2, 3])) =
       module_init example_externals"
  using handlers_preserve_globals [of example_externals example_globals "PostTranscriptions example_request"]
    handlers_preserve_globals [of example_externals example_globals "PostTranscribeStream [1, 2, 3]"]
    handlers_preserve_globals [of example_externals "module_init example_externals" "PostTranscribeQuick [1, 2, 3]"]
  by blast

subsection \<open>Health check\<close>

text \<open>
  Claim C10. \<open>health_check\<close> never raises; its status is \<open>healthy\<close> exactly when
  \<open>whisper_model\<close> is not \<open>None\<close> and \<open>unhealthy\<close> otherwise; its model and device
  fields are \<open>config.MODEL_NAME\<close> and \<open>config.DEVICE\<close> whether or not the model is loaded.
\<close>

theorem health_check_total:
  "\<exists>h. health_check ext g = (g, [], Inr (Health h))
     \<and> (status h = ''healthy'') = (whisper_model g \<noteq> None)
     \<and> status h = (if whisper_model g \<noteq> None then ''healthy'' else ''unhealthy'')
     \<and> model h = MODEL_NAME (config g)
     \<and> device h = DEVICE (config g)"
  by (simp add: health_check_def)

theorem health_check_total_witness:
  "health_check example_externals example_globals =
     (example_globals, [],
      Inr (Health \<lparr> status = ''healthy'', model = ''base'', device = ''cpu'',
                    timestamp = ''2024-01-01T00:00:00'' \<rparr>))
   \<and> health_check example_externals (module_init example_externals) =
     (module_init example_externals, [],
      Inr (Health \<lparr> status = ''unhealthy'', model = ''base'', device = ''cpu'',
                    timestamp = ''2024-01-01T00:00:00'' \<rparr>))"
proof -
  from health_check_total [of example_externals example_globals]
  obtain h where h: "health_check example_externals example_globals = (example_globals, [], Inr (Health h))"
    and "status h = (if whisper_model example_globals \<noteq> None then ''healthy'' else ''unhealthy'')"
    and "model h = MODEL_NAME (config example_globals)"
    and "device h = DEVICE (config example_globals)"
    by blast
  then have "status h = ''healthy''" "model h = ''base''" "device h = ''cpu''"
    by (simp_all add: example_globals_def example_externals_def Config_init_def example_model_def)
  moreover have "timestamp h = ''2024-01-01T00:00:00''"
    using h by (auto simp: health_check_def example_externals_def)
  ultimately have first: "health_check example_externals example_globals =
     (example_globals, [],
      Inr (Health \<lparr> status = ''healthy'', model = ''base'', device = ''cpu'',
                    timestamp = ''2024-01-01T00:00:00'' \<rparr>))"
    using h by (cases h) simp
  have second: "health_check example_externals (module_init example_externals) =
     (module_init example_externals, [],
      Inr (Health \<lparr> status = ''unhealthy'', model = ''base'', device = ''cpu'',
                    timestamp = ''2024-01-01T00:00:00'' \<rparr>))"
    by (simp add: health_check_def module_init_def example_externals_def Config_init_def)
  from first second show ?thesis by (intro conjI)
qed

end
